theory Spec2Isabelle
  imports Main "HOL-Library.Word"
begin

section \<open>The image-to-audio-story pipeline of \<open>app.py\<close>\<close>

text \<open>
  \<open>app.py\<close> chains three pretrained models: an image-captioning pipeline run locally,
  a chat model reached through a prompt chain, and a text-to-speech model behind an HTTP
  endpoint. The three models and the HTTP client are libraries outside the repository,
  so they are parameters of the embedding (the record \<open>world\<close>); the code of \<open>app.py\<close>
  between the library calls is translated function by function.

  Effects are explicit. A \<open>state\<close> holds the files written, the standard output, and a
  trace of the calls that leave \<open>app.py\<close>. Every function takes the state and returns a
  result together with the new state; an exception is the left injection of the result,
  and the state returned with it is the one reached when the exception was raised
  (nothing is rolled back, nothing is caught: \<open>app.py\<close> has no \<open>try\<close>).
\<close>

subsection \<open>Data\<close>

type_synonym byte = "8 word"

text \<open>A Python \<open>dict[str, str]\<close> literal, in insertion order.\<close>

type_synonym str_dict = "(string \<times> string) list"

text \<open>
  The exceptions that can leave a function of \<open>app.py\<close>: the two that its own indexing
  expression \<open>image_to_text(url)[0]["generated_text"]\<close> can raise, and whatever a library
  call raises, carried by name.
\<close>

datatype error = IndexError | KeyError string | LibraryError string

text \<open>The module-level globals of lines 16 and 17; \<open>os.getenv\<close> gives \<open>None\<close> for an unset variable.\<close>

record config =
  HUGGINGFACE_API_TOKEN :: "string option"
  OPENAI_API_KEY :: "string option"

text \<open>The arguments of the three constructor calls of lines 67, 69 and 71.\<close>

record prompt_template_obj =
  template :: string
  input_variables :: "string list"

record chat_openai =
  model_name :: string
  temperature :: int

record llm_chain =
  llm :: chat_openai
  prompt :: prompt_template_obj
  verbose :: bool

text \<open>What \<open>requests.post\<close> returns; \<open>app.py\<close> reads only \<open>content\<close>.\<close>

record response =
  status_code :: nat
  response_headers :: str_dict
  content :: "byte list"

text \<open>One candidate of the captioning pipeline's output list: a dictionary.\<close>

type_synonym candidate = "string \<rightharpoonup> string"

text \<open>
  The calls that leave \<open>app.py\<close>, with their arguments: running the captioning pipeline
  on an image, \<open>story_llm.predict\<close> on a chain and its keyword arguments, and
  \<open>requests.post\<close> on a URL, headers and JSON body.
\<close>

datatype event =
    CaptionCall string
  | LLMPredict llm_chain str_dict
  | HttpPost string str_dict str_dict

record state =
  files :: "string \<rightharpoonup> byte list"
  stdout :: "string list"
  trace :: "event list"

text \<open>
  The libraries. \<open>pipeline\<close> is \<open>transformers.pipeline(task, model=...)\<close>: it fails or gives
  the callable that maps an image reference to a candidate list. \<open>predict\<close> is
  \<open>LLMChain.predict\<close> on the chain built from the two other constructors; an exception of
  a constructor (a template the library rejects, a credential it misses) is an exception
  of \<open>predict\<close> here, since the constructors have no other effect. \<open>post\<close> is
  \<open>requests.post(url, headers=..., json=...)\<close>.
\<close>

record world =
  pipeline :: "string \<Rightarrow> string \<Rightarrow> error + (string \<Rightarrow> error + candidate list)"
  predict :: "llm_chain \<Rightarrow> str_dict \<Rightarrow> error + string"
  post :: "string \<Rightarrow> str_dict \<Rightarrow> str_dict \<Rightarrow> error + response"


subsection \<open>Python formatting\<close>

text \<open>An f-string field \<open>{v}\<close> holding a variable that is a string or \<open>None\<close>.\<close>

definition fstr :: "string option \<Rightarrow> string" where
  "fstr v = (case v of None \<Rightarrow> ''None'' | Some t \<Rightarrow> t)"

definition NL :: string where
  "NL = [CHR 0x0A]"

subsection \<open>The captioner (lines 37 to 49)\<close>

definition generate_text_from_image ::
  "world \<Rightarrow> string \<Rightarrow> state \<Rightarrow> (error + string) \<times> state" where
  "generate_text_from_image w url s =
     (case pipeline w ''image-to-text'' ''nlpconnect/vit-gpt2-image-captioning'' of
        Inl e \<Rightarrow> (Inl e, s)
      | Inr image_to_text \<Rightarrow>
          (let s1 = s\<lparr>trace := trace s @ [CaptionCall url]\<rparr> in
           case image_to_text url of
             Inl e \<Rightarrow> (Inl e, s1)
           | Inr [] \<Rightarrow> (Inl IndexError, s1)
           | Inr (c # _) \<Rightarrow>
               (case c ''generated_text'' of
                  None \<Rightarrow> (Inl (KeyError ''generated_text''), s1)
                | Some generated_text \<Rightarrow>
                    (Inr generated_text,
                     s1\<lparr>stdout := stdout s1 @
                        [''IMAGE INPUT: '' @ url,
                         ''GENERATED TEXT OUTPUT: '' @ generated_text]\<rparr>))))"

subsection \<open>The storyteller (lines 52 to 77)\<close>

text \<open>The f-string of lines 59 to 65: the text before the field and the text after it.\<close>

definition template_prefix :: string where
  "template_prefix =
     NL @ ''    You are a story teller;'' @
     NL @ ''    You can generate a short story based on a simple narrative, the story should be no more than 20 words;'' @
     NL @ ''    '' @
     NL @ ''    CONTEXT: ''"

definition template_suffix :: string where
  "template_suffix = NL @ ''    STORY:'' @ NL @ ''    ''"

definition prompt_template :: "string \<Rightarrow> string" where
  "prompt_template scenario = template_prefix @ scenario @ template_suffix"

definition story_llm :: "string \<Rightarrow> llm_chain" where
  "story_llm scenario =
     (let prompt = \<lparr>template = prompt_template scenario, input_variables = [''scenario'']\<rparr>;
          llm = \<lparr>model_name = ''gpt-3.5-turbo'', temperature = 1\<rparr>
      in \<lparr>llm = llm, prompt = prompt, verbose = True\<rparr>)"

definition generate_story_from_text ::
  "world \<Rightarrow> string \<Rightarrow> state \<Rightarrow> (error + string) \<times> state" where
  "generate_story_from_text w scenario s =
     (let kwargs = [(''scenario'', scenario)];
          s1 = s\<lparr>trace := trace s @ [LLMPredict (story_llm scenario) kwargs]\<rparr>
      in case predict w (story_llm scenario) kwargs of
           Inl e \<Rightarrow> (Inl e, s1)
         | Inr generated_story \<Rightarrow>
             (Inr generated_story,
              s1\<lparr>stdout := stdout s1 @
                 [''TEXT INPUT: '' @ scenario,
                  ''GENERATED STORY OUTPUT: '' @ generated_story]\<rparr>))"

subsection \<open>The narrator (lines 80 to 94)\<close>

definition API_URL :: string where
  "API_URL = ''https://api-inference.huggingface.co/models/espnet/kan-bayashi_ljspeech_vits''"

definition speech_headers :: "config \<Rightarrow> str_dict" where
  "speech_headers cfg = [(''Authorization'', ''Bearer '' @ fstr (HUGGINGFACE_API_TOKEN cfg))]"

text \<open>
  The function has no \<open>return\<close> statement: a call that raises nothing evaluates to
  Python's \<open>None\<close>, which is \<open>None\<close> of the result type \<open>byte list option\<close> here. Opening
  a file in mode \<open>wb\<close> creates it or truncates it, and the write stores the bytes; the
  file system is a map that accepts every write.
\<close>

definition generate_speech_from_text ::
  "config \<Rightarrow> world \<Rightarrow> string \<Rightarrow> state \<Rightarrow> (error + byte list option) \<times> state" where
  "generate_speech_from_text cfg w message s =
     (let headers = speech_headers cfg;
          payloads = [(''inputs'', message)];
          s1 = s\<lparr>trace := trace s @ [HttpPost API_URL headers payloads]\<rparr>
      in case post w API_URL headers payloads of
           Inl e \<Rightarrow> (Inl e, s1)
         | Inr response \<Rightarrow>
             (Inr None, s1\<lparr>files := (files s1)(''generated_audio.flac'' \<mapsto> content response)\<rparr>))"

subsection \<open>The orchestrator (lines 97 to 131)\<close>


subsection \<open>Notions the properties are stated with\<close>



text \<open>
  The number of words of a text, separated by spaces; the flag says whether the text
  read so far ends inside a word.
\<close>

fun count_words :: "bool \<Rightarrow> string \<Rightarrow> nat" where
  "count_words in_word [] = 0"
| "count_words in_word (c # cs) =
     (if c = CHR '' '' then count_words False cs
      else (if in_word then 0 else 1) + count_words True cs)"

subsection \<open>Concrete runs\<close>

text \<open>
  Libraries and inputs on which the functions are evaluated below: a run in which every
  service answers, one in which the speech service answers with an error status and a
  JSON body, one in which the captioning model gives no candidate, and one in which the
  image cannot be read.
\<close>

definition cat_candidates :: "candidate list" where
  "cat_candidates =
     [[''generated_text'' \<mapsto> ''a cat sitting on a windowsill''],
      [''generated_text'' \<mapsto> ''a dog lying on a sofa'']]"

definition long_story :: string where
  "long_story =
     '' The cat sat on the windowsill every single morning and watched the rain fall on the quiet old street until the sun finally came out again. ''"

definition flac_bytes :: "byte list" where
  "flac_bytes = [0x66, 0x4C, 0x61, 0x43, 0x00, 0x00, 0x00, 0x22]"

definition json_error_bytes :: "byte list" where
  "json_error_bytes = [0x7B, 0x22, 0x65, 0x72, 0x72, 0x6F, 0x72, 0x22, 0x3A, 0x22, 0x78, 0x22, 0x7D]"

definition demo_world :: world where
  "demo_world =
     \<lparr>pipeline = (\<lambda>task model. Inr (\<lambda>url. Inr cat_candidates)),
      predict = (\<lambda>chain kwargs. Inr long_story),
      post = (\<lambda>url headers body.
        Inr \<lparr>status_code = 200, response_headers = [(''content-type'', ''audio/flac'')],
             content = flac_bytes\<rparr>)\<rparr>"

definition failing_speech_world :: world where
  "failing_speech_world =
     demo_world\<lparr>post := (\<lambda>url headers body.
        Inr \<lparr>status_code = 503, response_headers = [(''content-type'', ''application/json'')],
             content = json_error_bytes\<rparr>)\<rparr>"



definition demo_config :: config where
  "demo_config = \<lparr>HUGGINGFACE_API_TOKEN = Some ''hf_token'', OPENAI_API_KEY = Some ''sk_key''\<rparr>"

definition no_token_config :: config where
  "no_token_config = \<lparr>HUGGINGFACE_API_TOKEN = None, OPENAI_API_KEY = Some ''sk_key''\<rparr>"


definition init_state :: state where
  "init_state = \<lparr>files = Map.empty, stdout = [], trace = []\<rparr>"

definition old_audio_state :: state where
  "old_audio_state =
     \<lparr>files = [''generated_audio.flac'' \<mapsto> [0x01, 0x02, 0x03]], stdout = [], trace = []\<rparr>"

section \<open>Properties\<close>

subsection \<open>Auxiliary facts\<close>









subsection \<open>The orchestrator\<close>



subsection \<open>The storyteller\<close>



text \<open>
  Claim C9. Whatever completion \<open>predict\<close> returns is the story the storyteller returns,
  unchanged: no length is enforced and nothing is cut or rewritten.
\<close>

theorem story_is_completion:
  assumes "predict w (story_llm scenario) [(''scenario'', scenario)] = Inr completion"
  shows "fst (generate_story_from_text w scenario s) = Inr completion"
  using assms by (simp add: generate_story_from_text_def Let_def)

text \<open>A completion of 26 words, with a space at each end, is returned as it is.\<close>

theorem story_is_completion_witness:
  "predict demo_world (story_llm ''a cat sitting on a windowsill'')
     [(''scenario'', ''a cat sitting on a windowsill'')] = Inr long_story \<and>
   20 < count_words False long_story \<and>
   fst (generate_story_from_text demo_world ''a cat sitting on a windowsill'' init_state) =
     Inr long_story"
proof -
  have h: "predict demo_world (story_llm ''a cat sitting on a windowsill'')
     [(''scenario'', ''a cat sitting on a windowsill'')] = Inr long_story"
    by (simp add: demo_world_def)
  have l: "20 < count_words False long_story"
    by (simp add: long_story_def)
  show ?thesis
    using h l story_is_completion [OF h, of init_state] by simp
qed

subsection \<open>The narrator\<close>

text \<open>
  Claim C3. For every story, the narrator adds exactly one call to the trace: a POST to the
  fixed URL, whose only header is \<open>Authorization\<close> with the value \<open>Bearer\<close>, a space and
  the token, and whose JSON body has the single key \<open>inputs\<close> with the story as value.
\<close>

theorem narrate_one_post:
  "trace (snd (generate_speech_from_text cfg w story s)) =
     trace s @
     [HttpPost ''https://api-inference.huggingface.co/models/espnet/kan-bayashi_ljspeech_vits''
        [(''Authorization'', ''Bearer '' @ fstr (HUGGINGFACE_API_TOKEN cfg))]
        [(''inputs'', story)]]"
  by (simp add: generate_speech_from_text_def Let_def API_URL_def speech_headers_def
      split: sum.splits)

text \<open>
  Claim C4. Whatever response the POST returns, with any status code and any headers, its
  body is what the file \<open>generated_audio.flac\<close> holds afterwards, whatever it held before;
  no other file changes.
\<close>

theorem narrate_writes_body:
  assumes "post w API_URL (speech_headers cfg) [(''inputs'', story)] = Inr r"
  shows "files (snd (generate_speech_from_text cfg w story s)) =
           (files s)(''generated_audio.flac'' \<mapsto> content r)"
  using assms by (simp add: generate_speech_from_text_def Let_def)

text \<open>A response with status 503 and a JSON body replaces the audio written before.\<close>

theorem narrate_writes_body_witness:
  "post failing_speech_world API_URL (speech_headers demo_config) [(''inputs'', long_story)] =
     Inr \<lparr>status_code = 503, response_headers = [(''content-type'', ''application/json'')],
          content = json_error_bytes\<rparr> \<and>
   files old_audio_state ''generated_audio.flac'' = Some [0x01, 0x02, 0x03] \<and>
   files (snd (generate_speech_from_text demo_config failing_speech_world long_story old_audio_state))
     ''generated_audio.flac'' = Some json_error_bytes"
proof -
  have h: "post failing_speech_world API_URL (speech_headers demo_config) [(''inputs'', long_story)] =
     Inr \<lparr>status_code = 503, response_headers = [(''content-type'', ''application/json'')],
          content = json_error_bytes\<rparr>"
    by (simp add: failing_speech_world_def demo_world_def)
  show ?thesis
    using h narrate_writes_body [OF h, of old_audio_state]
    by (simp add: old_audio_state_def)
qed

text \<open>
  Claim C6, as the code has it. With the token absent the narrator does not stop: it issues
  the POST with the header value \<open>Bearer None\<close>, raises only what the POST raises, and
  otherwise writes the response body to the file.
\<close>

theorem narrate_absent_token_posts:
  assumes "HUGGINGFACE_API_TOKEN cfg = None"
  shows "trace (snd (generate_speech_from_text cfg w story s)) =
           trace s @ [HttpPost API_URL [(''Authorization'', ''Bearer None'')] [(''inputs'', story)]] \<and>
         (case post w API_URL [(''Authorization'', ''Bearer None'')] [(''inputs'', story)] of
            Inl e \<Rightarrow> fst (generate_speech_from_text cfg w story s) = Inl e
          | Inr r \<Rightarrow>
              fst (generate_speech_from_text cfg w story s) = Inr None \<and>
              files (snd (generate_speech_from_text cfg w story s)) =
                (files s)(''generated_audio.flac'' \<mapsto> content r))"
  using assms
  by (simp add: generate_speech_from_text_def Let_def speech_headers_def fstr_def
      split: sum.splits)

theorem narrate_absent_token_posts_witness:
  "HUGGINGFACE_API_TOKEN no_token_config = None \<and>
   trace (snd (generate_speech_from_text no_token_config failing_speech_world long_story init_state)) =
     [HttpPost API_URL [(''Authorization'', ''Bearer None'')] [(''inputs'', long_story)]] \<and>
   fst (generate_speech_from_text no_token_config failing_speech_world long_story init_state) =
     Inr None \<and>
   files (snd (generate_speech_from_text no_token_config failing_speech_world long_story init_state))
     ''generated_audio.flac'' = Some json_error_bytes"
proof -
  have h: "HUGGINGFACE_API_TOKEN no_token_config = None"
    by (simp add: no_token_config_def)
  show ?thesis
    using h narrate_absent_token_posts [OF h, of failing_speech_world long_story init_state]
    by (simp add: failing_speech_world_def demo_world_def init_state_def)
qed

text \<open>
  With the token absent and a service that answers, the narrator returns without an
  exception and the POST is in the trace.
\<close>

theorem narrate_absent_token_counterexample:
  "HUGGINGFACE_API_TOKEN no_token_config = None \<and>
   fst (generate_speech_from_text no_token_config demo_world long_story init_state) = Inr None \<and>
   trace (snd (generate_speech_from_text no_token_config demo_world long_story init_state)) =
     [HttpPost API_URL [(''Authorization'', ''Bearer None'')] [(''inputs'', long_story)]]"
  by (simp add: generate_speech_from_text_def Let_def no_token_config_def demo_world_def
      init_state_def speech_headers_def fstr_def)

text \<open>
  Claim C8, evaluated on the code. On a story for which the service answers with audio, the
  narrator writes the audio to the file and returns \<open>None\<close>, not the audio: the function
  has no \<open>return\<close> statement, although its docstring announces the generated audio as
  return value.
\<close>

theorem narrate_returns_none:
  "post demo_world API_URL (speech_headers demo_config) [(''inputs'', long_story)] =
     Inr \<lparr>status_code = 200, response_headers = [(''content-type'', ''audio/flac'')],
          content = flac_bytes\<rparr> \<and>
   fst (generate_speech_from_text demo_config demo_world long_story init_state) = Inr None \<and>
   files (snd (generate_speech_from_text demo_config demo_world long_story init_state))
     ''generated_audio.flac'' = Some flac_bytes"
  by (simp add: generate_speech_from_text_def Let_def demo_world_def init_state_def)

subsection \<open>The captioner\<close>

text \<open>
  Claim C5. When the pipeline loads and the model gives a list whose first candidate has
  the field \<open>generated_text\<close>, the captioner returns the text of that first candidate,
  whatever candidates follow.
\<close>

theorem caption_first_candidate:
  assumes "pipeline w ''image-to-text'' ''nlpconnect/vit-gpt2-image-captioning'' = Inr image_to_text"
    and "image_to_text url = Inr (c # cs)"
    and "c ''generated_text'' = Some t"
  shows "fst (generate_text_from_image w url s) = Inr t"
  using assms by (simp add: generate_text_from_image_def Let_def)

theorem caption_first_candidate_witness:
  "pipeline demo_world ''image-to-text'' ''nlpconnect/vit-gpt2-image-captioning'' =
     Inr (\<lambda>url. Inr cat_candidates) \<and>
   cat_candidates =
     [''generated_text'' \<mapsto> ''a cat sitting on a windowsill''] #
     [[''generated_text'' \<mapsto> ''a dog lying on a sofa'']] \<and>
   fst (generate_text_from_image demo_world ''cat.jpg'' init_state) =
     Inr ''a cat sitting on a windowsill''"
proof -
  have p: "pipeline demo_world ''image-to-text'' ''nlpconnect/vit-gpt2-image-captioning'' =
     Inr (\<lambda>url. Inr cat_candidates)"
    by (simp add: demo_world_def)
  have c: "(\<lambda>url. Inr cat_candidates :: error + candidate list) ''cat.jpg'' =
     Inr ([''generated_text'' \<mapsto> ''a cat sitting on a windowsill''] #
          [[''generated_text'' \<mapsto> ''a dog lying on a sofa'']])"
    by (simp add: cat_candidates_def)
  have t: "[''generated_text'' \<mapsto> ''a cat sitting on a windowsill''] ''generated_text'' =
     Some ''a cat sitting on a windowsill''"
    by simp
  show ?thesis
    using p caption_first_candidate [OF p c t, where s = init_state]
    by (simp add: cat_candidates_def)
qed



end
